theory Spec2Isabelle
  imports Complex_Main "HOL-Library.List_Lexorder" "HOL-Library.Char_ord"
    "HOL-Library.Product_Lexorder"
begin

section \<open>Numeric conventions\<close>

text \<open>
  The analytics code computes with pandas and numpy: integer columns are summed as
  integers and every ratio is a float64.  Here integer sums are natural numbers or
  integers and every float64 is an exact rational (a real where a square root is
  taken): binary rounding error is not part of the model.  The one float64 value with
  a behaviour of its own, NaN (which pandas produces for \<open>0 / 0\<close> and numpy for the
  mean of nothing), is written \<open>None\<close>, and the operations used on it (sums that skip
  it, comparisons that are false on it) are written out.
\<close>

text \<open>
  Python's \<open>round(x, n)\<close> rounds to the nearest multiple of \<open>10^-n\<close> and
  resolves a tie to the even neighbour.
\<close>

definition round_half_even :: "rat \<Rightarrow> int" where
  "round_half_even x =
     (let f = \<lfloor>x\<rfloor>; d = x - of_int f
      in if d < 1 / 2 then f
         else if 1 / 2 < d then f + 1
         else if even f then f else f + 1)"

definition py_round :: "rat \<Rightarrow> nat \<Rightarrow> rat" where
  "py_round x n = of_int (round_half_even (x * 10 ^ n)) / 10 ^ n"

text \<open>SQLite's \<open>ROUND(x, n)\<close> resolves a tie away from zero.\<close>

definition round_half_away :: "rat \<Rightarrow> int" where
  "round_half_away x = (if 0 \<le> x then \<lfloor>x + 1 / 2\<rfloor> else - \<lfloor>- x + 1 / 2\<rfloor>)"

definition sql_round :: "rat \<Rightarrow> nat \<Rightarrow> rat" where
  "sql_round x n = of_int (round_half_away (x * 10 ^ n)) / 10 ^ n"

text \<open>\<open>str\<close> of an integer: its decimal digits, with a minus sign when negative.\<close>

fun str_nat :: "nat \<Rightarrow> string" where
  "str_nat n =
     (if n < 10 then [''0123456789'' ! n]
      else str_nat (n div 10) @ [''0123456789'' ! (n mod 10)])"

definition str_int :: "int \<Rightarrow> string" where
  "str_int i = (if i < 0 then ''-'' @ str_nat (nat (- i)) else str_nat (nat i))"

text \<open>\<open>sep.join(parts)\<close>.\<close>

fun join :: "string \<Rightarrow> string list \<Rightarrow> string" where
  "join sep [] = []"
| "join sep [s] = s"
| "join sep (s # t # ts) = s @ sep @ join sep (t # ts)"

text \<open>
  \<open>Series.unique()\<close> and \<open>DataFrame.drop_duplicates()\<close>: the distinct values in the
  order of their first occurrence.
\<close>

definition unique :: "'a list \<Rightarrow> 'a list" where
  "unique xs = rev (remdups (rev xs))"

section \<open>Data model\<close>

text \<open>
  One row of the registration table.  \<open>registrations\<close> is a count; \<open>fuel_type\<close> is
  read only when the frame has that column.
\<close>

record registration =
  year :: int
  quarter :: string
  vehicle_type :: string
  manufacturer :: string
  registrations :: nat
  fuel_type :: string

text \<open>
  A data frame: its rows, and whether it carries the optional \<open>fuel_type\<close> column
  (\<open>'fuel_type' in df.columns\<close>).
\<close>

record dataframe =
  rows :: "registration list"
  fuel_type_column :: bool

definition empty_df :: "dataframe \<Rightarrow> bool" where
  "empty_df df = (rows df = [])"

definition select :: "(registration \<Rightarrow> bool) \<Rightarrow> dataframe \<Rightarrow> dataframe" where
  "select P df = df\<lparr>rows := filter P (rows df)\<rparr>"

text \<open>The text columns a caller groups by.\<close>

datatype column = Vehicle_type | Manufacturer | Quarter

fun col :: "column \<Rightarrow> registration \<Rightarrow> string" where
  "col Vehicle_type r = vehicle_type r"
| "col Manufacturer r = manufacturer r"
| "col Quarter r = quarter r"

definition group_key :: "column list \<Rightarrow> registration \<Rightarrow> string list" where
  "group_key group_by r = map (\<lambda>c. col c r) group_by"

record GrowthMetric =
  entity :: string
  period :: string
  current_value :: nat
  previous_value :: nat
  growth_rate :: rat
  growth_absolute :: int
  rank :: nat

section \<open>Errors\<close>

text \<open>
  What the Python code raises is a value of the model.  A division by zero counts as
  an error here, so that a function which never divides by zero is one that returns
  \<open>Inr\<close>.
\<close>

datatype error = ZeroDivisionError | KeyError | IndexError | ValueError

definition checked_div :: "rat \<Rightarrow> rat \<Rightarrow> error + rat" where
  "checked_div a b = (if b = 0 then Inl ZeroDivisionError else Inr (a / b))"

text \<open>\<open>(current - previous) / previous * 100\<close>.\<close>

definition pct_change :: "nat \<Rightarrow> nat \<Rightarrow> error + rat" where
  "pct_change cur prev =
     (case checked_div (of_int (int cur - int prev)) (of_nat prev) of
        Inl e \<Rightarrow> Inl e
      | Inr q \<Rightarrow> Inr (q * 100))"

text \<open>A loop whose body appends to a list and may raise: the first error ends it.\<close>

fun collect :: "('a \<Rightarrow> error + 'b list) \<Rightarrow> 'a list \<Rightarrow> error + 'b list" where
  "collect f [] = Inr []"
| "collect f (x # xs) =
     (case f x of
        Inl e \<Rightarrow> Inl e
      | Inr ys \<Rightarrow> (case collect f xs of Inl e \<Rightarrow> Inl e | Inr zs \<Rightarrow> Inr (ys @ zs)))"

section \<open>Growth metrics (analytics engine)\<close>

text \<open>
  \<open>df.groupby(group_by + ['year'])['registrations'].sum().reset_index()\<close>: one row
  per distinct (group, year), in ascending key order, with the sum of the registrations.
\<close>

definition yearly_data :: "column list \<Rightarrow> dataframe \<Rightarrow> (string list \<times> int \<times> nat) list" where
  "yearly_data group_by df =
     map (\<lambda>(g, y). (g, y,
            sum_list (map registrations
              (filter (\<lambda>r. group_key group_by r = g \<and> year r = y) (rows df)))))
         (sort (remdups (map (\<lambda>r. (group_key group_by r, year r)) (rows df))))"

text \<open>\<open>yearly_data[group_filter].sort_values('year')\<close>.\<close>

definition group_data ::
  "string list \<Rightarrow> (string list \<times> int \<times> nat) list \<Rightarrow> (string list \<times> int \<times> nat) list" where
  "group_data g yd = sort_key (\<lambda>(g', y, s). y) (filter (\<lambda>(g', y, s). g' = g) yd)"

text \<open>
  The body of \<open>for idx in range(1, len(group_data))\<close>: the row at \<open>idx\<close> against the
  row before it.
\<close>

definition yoy_step ::
  "string list \<Rightarrow> (string list \<times> int \<times> nat) list \<Rightarrow> nat \<Rightarrow> error + GrowthMetric list" where
  "yoy_step g gd idx =
     (case (gd ! idx, gd ! (idx - 1)) of
        ((_, cy, cur), (_, _, prev)) \<Rightarrow>
          if 0 < prev then
            (case pct_change cur prev of
               Inl e \<Rightarrow> Inl e
             | Inr r \<Rightarrow> Inr [\<lparr>entity = join '' - '' g, period = str_int cy,
                             current_value = cur, previous_value = prev,
                             growth_rate = py_round r 2,
                             growth_absolute = int cur - int prev, rank = 0\<rparr>])
          else Inr [])"

definition yoy_group :: "(string list \<times> int \<times> nat) list \<Rightarrow> string list \<Rightarrow> error + GrowthMetric list" where
  "yoy_group yd g = (let gd = group_data g yd in collect (yoy_step g gd) [1..<length gd])"

definition yoy_unranked :: "column list \<Rightarrow> dataframe \<Rightarrow> error + GrowthMetric list" where
  "yoy_unranked group_by df =
     (let yd = yearly_data group_by df in collect (yoy_group yd) (unique (map fst yd)))"

text \<open>
  \<open>metrics.sort(key=lambda x: x.growth_rate, reverse=True)\<close>, a stable sort, then the
  ranks \<open>i + 1\<close> in the sorted order.
\<close>

definition rank_metrics :: "GrowthMetric list \<Rightarrow> GrowthMetric list" where
  "rank_metrics ms =
     map (\<lambda>(i, m). m\<lparr>rank := i + 1\<rparr>) (enumerate 0 (sort_key (\<lambda>m. - growth_rate m) ms))"

text \<open>\<open>calculate_growth_metrics(df, GrowthPeriod.YOY, group_by)\<close>.\<close>

definition calculate_growth_metrics_YOY :: "column list \<Rightarrow> dataframe \<Rightarrow> error + GrowthMetric list" where
  "calculate_growth_metrics_YOY group_by df =
     (case yoy_unranked group_by df of Inl e \<Rightarrow> Inl e | Inr ms \<Rightarrow> Inr (rank_metrics ms))"


section \<open>Market concentration (analytics engine)\<close>

text \<open>
  The values of \<open>concentration_metrics[vehicle_type]\<close> that are numbers or the
  structure label.  The entries that name manufacturers (\<open>market_leader\<close>, the keys of
  \<open>top_5_shares\<close>) are left out: the order pandas' default sort gives to manufacturers
  with equal shares is not determined by the source.
\<close>

record ConcentrationMetrics =
  total_manufacturers :: nat
  cr4_ratio :: rat
  cr8_ratio :: rat
  hhi_index :: rat
  effective_competitors :: rat
  market_structure :: string

text \<open>\<open>vehicle_data.groupby('manufacturer')['registrations'].sum()\<close>.\<close>

definition manufacturer_totals :: "dataframe \<Rightarrow> (string \<times> nat) list" where
  "manufacturer_totals vehicle_data =
     map (\<lambda>m. (m, sum_list (map registrations
                   (filter (\<lambda>r. manufacturer r = m) (rows vehicle_data)))))
         (sort (remdups (map manufacturer (rows vehicle_data))))"

text \<open>
  \<open>t / total_market * 100\<close> on a pandas series.  A zero total does not raise: every
  \<open>t\<close> is then zero as well (the total is their sum) and pandas yields NaN for
  \<open>0 / 0\<close>.
\<close>

definition share_pct :: "nat \<Rightarrow> nat \<Rightarrow> rat option" where
  "share_pct t total_market =
     (if total_market = 0 then None else Some (of_nat t / of_nat total_market * 100))"

text \<open>\<open>sort_values(ascending=False)\<close> on the values: descending, NaN last.\<close>

definition sort_values_desc :: "rat option list \<Rightarrow> rat option list" where
  "sort_values_desc xs =
     map Some (sort_key uminus (map the (filter (\<lambda>x. x \<noteq> None) xs)))
       @ filter (\<lambda>x. x = None) xs"

text \<open>\<open>Series.sum()\<close> skips NaN; the sum of nothing is 0.\<close>

definition sum_skipna :: "rat option list \<Rightarrow> rat" where
  "sum_skipna xs = sum_list (map (\<lambda>x. case x of None \<Rightarrow> 0 | Some v \<Rightarrow> v) xs)"

definition market_shares :: "dataframe \<Rightarrow> rat option list" where
  "market_shares vehicle_data =
     (let totals = map snd (manufacturer_totals vehicle_data);
          total_market = sum_list totals
      in sort_values_desc (map (\<lambda>t. share_pct t total_market) totals))"

definition classify_market_structure :: "rat \<Rightarrow> string" where
  "classify_market_structure hhi =
     (if 2500 < hhi then ''Highly Concentrated (Oligopoly)''
      else if 1500 < hhi then ''Moderately Concentrated''
      else if 1000 < hhi then ''Unconcentrated (Competitive)''
      else ''Highly Competitive'')"

definition concentration_of :: "dataframe \<Rightarrow> ConcentrationMetrics" where
  "concentration_of vehicle_data =
     (let shares = market_shares vehicle_data;
          cr4 = sum_skipna (take 4 shares);
          cr8 = sum_skipna (take 8 shares);
          hhi = sum_skipna (map (map_option (\<lambda>s. s ^ 2)) shares);
          effective = (if 0 < hhi then 1 / (hhi / 10000) else 0)
      in \<lparr>total_manufacturers = length shares, cr4_ratio = cr4, cr8_ratio = cr8,
          hhi_index = hhi, effective_competitors = effective,
          market_structure = classify_market_structure hhi\<rparr>)"

text \<open>
  The dictionary keyed by vehicle type, in insertion order: one entry per value of
  \<open>df['vehicle_type'].unique()\<close>.
\<close>

definition calculate_market_concentration :: "dataframe \<Rightarrow> (string \<times> ConcentrationMetrics) list" where
  "calculate_market_concentration df =
     map (\<lambda>vt. (vt, concentration_of (select (\<lambda>r. vehicle_type r = vt) df)))
         (unique (map vehicle_type (rows df)))"

section \<open>Investment scorecard (analytics engine)\<close>

text \<open>\<open>np.mean\<close> of a list: NaN for the empty list.\<close>

definition np_mean :: "rat list \<Rightarrow> rat option" where
  "np_mean xs = (if xs = [] then None else Some (sum_list xs / of_nat (length xs)))"

text \<open>
  Python's \<open>max(a, b)\<close> keeps \<open>a\<close> unless \<open>b > a\<close>, and \<open>min(a, b)\<close> keeps \<open>a\<close> unless
  \<open>b < a\<close>; a comparison with NaN is false.
\<close>

definition py_max :: "rat \<Rightarrow> rat option \<Rightarrow> rat" where
  "py_max a b = (case b of None \<Rightarrow> a | Some v \<Rightarrow> if a < v then v else a)"

definition py_min :: "rat \<Rightarrow> rat \<Rightarrow> rat" where
  "py_min a b = (if b < a then b else a)"

record Scorecard =
  overall_score :: rat
  growth_momentum :: rat
  market_size :: rat
  competition_intensity :: rat
  innovation_potential :: rat
  recommendation :: string
  avg_yoy_growth :: "rat option"
  total_market_size :: nat
  number_of_players :: nat

definition growth_score :: "rat option \<Rightarrow> rat" where
  "growth_score avg_growth = py_min 100 (py_max 0 (map_option (\<lambda>a. (a + 20) * 2) avg_growth))"

definition size_percentile :: "string \<Rightarrow> rat" where
  "size_percentile vt = (if vt = ''3W'' then 33 else if vt = ''2W'' then 67 else 100)"

definition competition_score :: "rat \<Rightarrow> rat" where
  "competition_score hhi = py_max 0 (Some (100 - hhi / 50))"

definition innovation_score :: "dataframe \<Rightarrow> rat" where
  "innovation_score vehicle_data =
     (if fuel_type_column vehicle_data
      then py_min 100 (of_nat (length (unique (map fuel_type (rows vehicle_data)))) * 20)
      else 50)"

definition weighted_score :: "rat \<Rightarrow> rat \<Rightarrow> rat \<Rightarrow> rat \<Rightarrow> rat" where
  "weighted_score g s c i = g * (4 / 10) + s * (3 / 10) + c * (2 / 10) + i * (1 / 10)"

definition recommend :: "rat \<Rightarrow> string" where
  "recommend overall =
     (if 75 \<le> overall then ''Strong Buy - High growth potential with favorable market dynamics''
      else if 60 \<le> overall then ''Buy - Positive outlook with moderate risk''
      else if 40 \<le> overall then ''Hold - Mixed signals, monitor closely''
      else ''Avoid - Challenging market conditions'')"

text \<open>
  The body of the loop over vehicle types.  \<open>concentration[vehicle_type]\<close> is a
  dictionary lookup.  The entry \<open>market_leader\<close> of \<open>key_metrics\<close> is left out, as in
  \<open>ConcentrationMetrics\<close>.
\<close>

definition scorecard_entry :: "dataframe \<Rightarrow> string \<Rightarrow> error + Scorecard" where
  "scorecard_entry df vt =
     (let vehicle_data = select (\<lambda>r. vehicle_type r = vt) df
      in case calculate_growth_metrics_YOY [Manufacturer] vehicle_data of
           Inl e \<Rightarrow> Inl e
         | Inr yoy \<Rightarrow>
             (case map_of (calculate_market_concentration vehicle_data) vt of
                None \<Rightarrow> Inl KeyError
              | Some conc \<Rightarrow>
                  (let avg_growth = np_mean (map growth_rate yoy);
                       g = growth_score avg_growth;
                       s = size_percentile vt;
                       c = competition_score (hhi_index conc);
                       i = innovation_score vehicle_data;
                       overall = weighted_score g s c i
                   in Inr \<lparr>overall_score = py_round overall 1,
                           growth_momentum = py_round g 1,
                           market_size = s,
                           competition_intensity = py_round c 1,
                           innovation_potential = py_round i 1,
                           recommendation = recommend overall,
                           avg_yoy_growth = map_option (\<lambda>a. py_round a 2) avg_growth,
                           total_market_size = sum_list (map registrations (rows vehicle_data)),
                           number_of_players = total_manufacturers conc\<rparr>)))"

fun scorecard_loop :: "dataframe \<Rightarrow> string list \<Rightarrow> error + (string \<times> Scorecard) list" where
  "scorecard_loop df [] = Inr []"
| "scorecard_loop df (vt # vts) =
     (case scorecard_entry df vt of
        Inl e \<Rightarrow> Inl e
      | Inr sc \<Rightarrow> (case scorecard_loop df vts of
                     Inl e \<Rightarrow> Inl e
                   | Inr rest \<Rightarrow> Inr ((vt, sc) # rest)))"

definition generate_investment_scorecard :: "dataframe \<Rightarrow> error + (string \<times> Scorecard) list" where
  "generate_investment_scorecard df = scorecard_loop df (unique (map vehicle_type (rows df)))"

section \<open>Forecast (analytics engine)\<close>

text \<open>
  \<open>quarter.str[1].astype(int)\<close>: the second character of the label read as a
  decimal digit; a label without a second character, or with another character there,
  makes \<open>astype\<close> raise.
\<close>

definition quarter_number :: "string \<Rightarrow> error + int" where
  "quarter_number q =
     (case q of
        _ # c # _ \<Rightarrow>
          if CHR ''0'' \<le> c \<and> c \<le> CHR ''9'' then Inr (int (of_char c) - 48)
          else Inl ValueError
      | _ \<Rightarrow> Inl ValueError)"

text \<open>
  \<open>vehicle_data.groupby(['year', 'quarter'])['registrations'].sum().reset_index()\<close>.
\<close>

definition quarterly_data :: "dataframe \<Rightarrow> (int \<times> string \<times> nat) list" where
  "quarterly_data vehicle_data =
     map (\<lambda>(y, q). (y, q,
            sum_list (map registrations
              (filter (\<lambda>r. year r = y \<and> quarter r = q) (rows vehicle_data)))))
         (sort (remdups (map (\<lambda>r. (year r, quarter r)) (rows vehicle_data))))"

text \<open>
  The column \<open>period = (year - year.min()) * 4 + quarter_number - 1\<close>, row by row.
  The minimum is taken over a frame that has at least one row wherever the function
  is called; over no rows the column is empty.
\<close>

fun period_column :: "int \<Rightarrow> (int \<times> string \<times> nat) list \<Rightarrow> error + int list" where
  "period_column y0 [] = Inr []"
| "period_column y0 ((y, q, s) # qd) =
     (case quarter_number q of
        Inl e \<Rightarrow> Inl e
      | Inr n \<Rightarrow> (case period_column y0 qd of
                    Inl e \<Rightarrow> Inl e
                  | Inr ps \<Rightarrow> Inr (((y - y0) * 4 + n - 1) # ps)))"

definition year_min :: "(int \<times> string \<times> nat) list \<Rightarrow> int" where
  "year_min qd = (case map fst qd of [] \<Rightarrow> 0 | y # ys \<Rightarrow> fold min ys y)"

text \<open>\<open>int(v)\<close> on a float truncates towards zero.\<close>

definition py_int :: "real \<Rightarrow> int" where
  "py_int v = (if 0 \<le> v then \<lfloor>v\<rfloor> else \<lceil>v\<rceil>)"

text \<open>\<open>np.std\<close>: the square root of the mean squared deviation from the mean.\<close>

definition np_std :: "real list \<Rightarrow> real" where
  "np_std rs =
     (let n = real (length rs); mu = sum_list rs / n
      in sqrt (sum_list (map (\<lambda>r. (r - mu) ^ 2) rs) / n))"

record Forecast =
  forecast_values :: "int list"
  trend_slope :: real
  confidence_interval :: real
  last_actual :: int
  growth_trend :: string

text \<open>
  \<open>np.polyfit(x, y, 1)\<close> is numpy's; the forecast takes it as the parameter \<open>polyfit\<close>,
  which returns the slope and the intercept.  The least-squares line in closed form,
  which is what numpy computes when the \<open>x\<close> are not all equal, is \<open>least_squares\<close>.
\<close>

definition least_squares :: "real list \<Rightarrow> real list \<Rightarrow> real \<times> real" where
  "least_squares xs ys =
     (let n = real (length xs);
          sx = sum_list xs; sy = sum_list ys;
          sxx = sum_list (map (\<lambda>x. x * x) xs);
          sxy = sum_list (map2 (\<lambda>x y. x * y) xs ys);
          slope = (n * sxy - sx * sy) / (n * sxx - sx * sx)
      in (slope, (sy - slope * sx) / n))"

text \<open>The part of the loop body under \<open>if len(quarterly_data) >= 4\<close>.\<close>

definition forecast_of ::
  "(real list \<Rightarrow> real list \<Rightarrow> real \<times> real) \<Rightarrow> int list \<Rightarrow> nat list \<Rightarrow> int \<Rightarrow> Forecast" where
  "forecast_of polyfit x y periods =
     (let (slope, intercept) = polyfit (map real_of_int x) (map real y);
          last_period = last x;
          forecast_periods = [last_period + 1..last_period + periods];
          values = map (\<lambda>p. slope * real_of_int p + intercept) forecast_periods;
          residuals = map2 (\<lambda>xi yi. real yi - (slope * real_of_int xi + intercept)) x y;
          std_error = np_std residuals
      in \<lparr>forecast_values = map (\<lambda>v. max 0 (py_int v)) values,
          trend_slope = slope,
          confidence_interval = std_error * (196 / 100),
          last_actual = int (last y),
          growth_trend = (if 0 < slope then ''Positive'' else ''Negative'')\<rparr>)"

text \<open>
  The loop body for one vehicle type: no entry (the empty list) when there are fewer
  than four quarterly rows.
\<close>

definition forecast_entry ::
  "(real list \<Rightarrow> real list \<Rightarrow> real \<times> real) \<Rightarrow> dataframe \<Rightarrow> int \<Rightarrow> string
     \<Rightarrow> error + (string \<times> Forecast) list" where
  "forecast_entry polyfit df periods vt =
     (let qd = quarterly_data (select (\<lambda>r. vehicle_type r = vt) df)
      in case period_column (year_min qd) qd of
           Inl e \<Rightarrow> Inl e
         | Inr x \<Rightarrow>
             if 4 \<le> length qd
             then Inr [(vt, forecast_of polyfit x (map (\<lambda>(y, q, s). s) qd) periods)]
             else Inr [])"

definition forecast_registrations ::
  "(real list \<Rightarrow> real list \<Rightarrow> real \<times> real) \<Rightarrow> dataframe \<Rightarrow> int
     \<Rightarrow> error + (string \<times> Forecast) list" where
  "forecast_registrations polyfit df periods =
     collect (forecast_entry polyfit df periods) (unique (map vehicle_type (rows df)))"

section \<open>Investment themes (insights generator)\<close>

text \<open>
  A theme without its \<open>supporting_data\<close>, which holds formatted numbers only.
\<close>

record InvestmentTheme =
  theme_name :: string
  description :: string
  investment_thesis :: string
  risk_factors :: "string list"
  potential_returns :: string

text \<open>
  Theme 1.  \<open>ev_growth\<close> is the yearly sum over the rows with fuel type Electric;
  the theme needs the column, such a row, and more than one year among those rows.
\<close>

definition ev_years :: "dataframe \<Rightarrow> int list" where
  "ev_years df = sort (remdups (map year (filter (\<lambda>r. fuel_type r = ''Electric'') (rows df))))"

definition ev_theme :: "dataframe \<Rightarrow> InvestmentTheme list" where
  "ev_theme df =
     (if fuel_type_column df
      then (if filter (\<lambda>r. fuel_type r = ''Electric'') (rows df) \<noteq> []
            then (if 1 < length (ev_years df)
                  then [\<lparr>theme_name = ''Electric Vehicle Adoption'',
                         description = ''Rapid transition to electric mobility across vehicle segments'',
                         investment_thesis = ''Government incentives and environmental concerns driving massive shift to EVs'',
                         risk_factors = [''Charging infrastructure development lag'',
                                         ''Battery technology and cost challenges'',
                                         ''Policy changes affecting incentives''],
                         potential_returns = ''High (20-30% CAGR potential)''\<rparr>]
                  else [])
            else [])
      else [])"

text \<open>Theme 2, the body of the loop over \<open>concentration_metrics.items()\<close>.\<close>

definition consolidation_theme :: "string \<times> ConcentrationMetrics \<Rightarrow> InvestmentTheme list" where
  "consolidation_theme item =
     (case item of (vt, metrics) \<Rightarrow>
        if 1500 < hhi_index metrics
        then [\<lparr>theme_name = vt @ '' Market Consolidation'',
               description = ''Increasing concentration in '' @ vt @ '' segment favoring market leaders'',
               investment_thesis = ''Market leaders gaining pricing power and economies of scale'',
               risk_factors = [''Regulatory intervention in concentrated markets'',
                               ''New entrant disruption'',
                               ''Technology shifts favoring smaller players''],
               potential_returns = ''Medium-High (15-25% CAGR for leaders)''\<rparr>]
        else [])"

text \<open>\<open>max(xs, key=...)\<close> on a non-empty list: the first element with the greatest key.\<close>

definition max_by :: "('a \<Rightarrow> rat) \<Rightarrow> 'a \<Rightarrow> 'a list \<Rightarrow> 'a" where
  "max_by key x xs = fold (\<lambda>m best. if key best < key m then m else best) xs x"

text \<open>Theme 3.\<close>

definition growth_theme :: "GrowthMetric list \<Rightarrow> InvestmentTheme list" where
  "growth_theme growth_metrics =
     (case filter (\<lambda>m. 15 < growth_rate m) growth_metrics of
        [] \<Rightarrow> []
      | m # ms \<Rightarrow>
          (let fastest_growing = max_by growth_rate m ms
           in [\<lparr>theme_name = ''High-Growth Segment Opportunity'',
                 description = ''Exceptional growth in '' @ entity fastest_growing @ '' segment'',
                 investment_thesis = ''Structural demand drivers supporting sustained high growth'',
                 risk_factors = [''Growth rate normalization as market matures'',
                                 ''Increased competition as segment attracts entrants'',
                                 ''Economic downturn impact on discretionary purchases''],
                 potential_returns = ''High (25-40% CAGR potential)''\<rparr>]))"

definition identify_investment_themes :: "dataframe \<Rightarrow> error + InvestmentTheme list" where
  "identify_investment_themes df =
     (case calculate_growth_metrics_YOY [Vehicle_type] df of
        Inl e \<Rightarrow> Inl e
      | Inr growth_metrics \<Rightarrow>
          Inr (ev_theme df
               @ concat (map consolidation_theme (calculate_market_concentration df))
               @ growth_theme growth_metrics))"

section \<open>Executive summary (insights generator)\<close>

text \<open>\<open>f"{n:,}"\<close>: the decimal digits in groups of three.\<close>

fun thousands :: "string \<Rightarrow> string" where
  "thousands ds =
     (if length ds \<le> 3 then ds
      else thousands (take (length ds - 3) ds) @ '','' @ drop (length ds - 3) ds)"

definition classify_market_size :: "nat \<Rightarrow> string" where
  "classify_market_size total_registrations =
     (if 10000000 < total_registrations then ''Large Market (>10M registrations)''
      else if 1000000 < total_registrations then ''Medium Market (1-10M registrations)''
      else ''Small Market (<1M registrations)'')"

text \<open>
  \<open>_generate_investment_outlook\<close>.  The mean of no scores is NaN, on which every
  comparison is false.
\<close>

definition generate_investment_outlook :: "dataframe \<Rightarrow> error + string" where
  "generate_investment_outlook df =
     (case generate_investment_scorecard df of
        Inl e \<Rightarrow> Inl e
      | Inr scorecard \<Rightarrow>
          Inr (case np_mean (map (\<lambda>(vt, s). overall_score s) scorecard) of
                 None \<Rightarrow> ''Cautious - Challenging market conditions with limited opportunities''
               | Some avg_score \<Rightarrow>
                   if 75 \<le> avg_score
                   then ''Positive - Strong growth fundamentals with favorable market dynamics''
                   else if 60 \<le> avg_score
                   then ''Cautiously Optimistic - Good opportunities with selective approach needed''
                   else if 40 \<le> avg_score
                   then ''Neutral - Mixed signals requiring careful analysis''
                   else ''Cautious - Challenging market conditions with limited opportunities''))"

text \<open>\<open>_assess_market_risks\<close>.\<close>

definition assess_market_risks :: "dataframe \<Rightarrow> error + string list" where
  "assess_market_risks df =
     (let high_concentration_segments =
            map fst (filter (\<lambda>(vt, metrics). 2500 < hhi_index metrics)
                            (calculate_market_concentration df))
      in case calculate_growth_metrics_YOY [Vehicle_type] df of
           Inl e \<Rightarrow> Inl e
         | Inr yoy_metrics \<Rightarrow>
             (let declining_segments =
                    map entity (filter (\<lambda>m. growth_rate m < - 5) yoy_metrics)
              in Inr ((if high_concentration_segments \<noteq> []
                       then [''High concentration risk in ''
                               @ join '', '' high_concentration_segments @ '' segments'']
                       else [])
                      @ (if declining_segments \<noteq> []
                         then [''Declining demand in '' @ join '', '' declining_segments]
                         else [])
                      @ [''Economic downturn impact on vehicle purchases'',
                         ''Regulatory changes affecting vehicle standards'',
                         ''Technology disruption from new mobility solutions''])))"

text \<open>\<open>f"{x:.1f}"\<close>: one decimal, the sign of \<open>x\<close> kept even when the digits are zero.\<close>

definition format_1f :: "rat \<Rightarrow> string" where
  "format_1f x =
     (let r = nat \<bar>round_half_even (x * 10)\<bar>
      in (if x < 0 then ''-'' else []) @ str_nat (r div 10) @ ''.'' @ str_nat (r mod 10))"

text \<open>
  The growth of the whole market from the year before the latest year to the latest
  year; 0 when the year before has no registrations.
\<close>

definition summary_yoy_growth :: "dataframe \<Rightarrow> error + rat" where
  "summary_yoy_growth df =
     (case map year (rows df) of
        [] \<Rightarrow> Inl ValueError
      | y # ys \<Rightarrow>
          (let latest_year = fold max ys y;
               current_year_data =
                 sum_list (map registrations (filter (\<lambda>r. year r = latest_year) (rows df)));
               previous_year_data =
                 sum_list (map registrations (filter (\<lambda>r. year r = latest_year - 1) (rows df)))
           in if 0 < previous_year_data then pct_change current_year_data previous_year_data
              else Inr 0))"

text \<open>
  The summary without the entries \<open>dominant_category\<close> and \<open>key_highlights\<close>, which
  depend on the order pandas gives to equal sums.
\<close>

record ExecutiveSummary =
  total_registrations :: string
  yoy_growth :: string
  total_manufacturers_count :: nat
  market_size_category :: string
  investment_outlook :: string
  risk_assessment :: "string list"

definition generate_executive_summary :: "dataframe \<Rightarrow> error + ExecutiveSummary" where
  "generate_executive_summary df =
     (if empty_df df
      then Inr \<lparr>total_registrations = ''0'',
                yoy_growth = ''N/A'',
                total_manufacturers_count = 0,
                market_size_category = ''No data available'',
                investment_outlook = ''No data available'',
                risk_assessment = [''No data available'']\<rparr>
      else
        (let total = sum_list (map registrations (rows df))
         in case summary_yoy_growth df of
              Inl e \<Rightarrow> Inl e
            | Inr yoy \<Rightarrow>
                (case generate_investment_outlook df of
                   Inl e \<Rightarrow> Inl e
                 | Inr outlook \<Rightarrow>
                     (case assess_market_risks df of
                        Inl e \<Rightarrow> Inl e
                      | Inr risks \<Rightarrow>
                          Inr \<lparr>total_registrations = thousands (str_nat total),
                                yoy_growth = format_1f yoy @ ''%'',
                                total_manufacturers_count =
                                  length (remdups (map manufacturer (rows df))),
                                market_size_category = classify_market_size total,
                                investment_outlook = outlook,
                                risk_assessment = risks\<rparr>))))"

section \<open>The store's growth metrics (database manager)\<close>

text \<open>
  A row of the table \<open>growth_metrics\<close>; a nullable column is an option, \<open>None\<close>
  being NULL.
\<close>

record growth_row =
  entity_type :: string
  entity_name :: string
  metric_type :: string
  period_text :: string
  current_total :: nat
  previous_total :: "nat option"
  rate :: "rat option"
  absolute :: int

text \<open>
  The common table expression \<open>yearly_data\<close> of the first statement:
  \<open>GROUP BY manufacturer, vehicle_type, year\<close>.  SQL fixes no order of the rows; the
  model lists them by ascending key.
\<close>

definition sql_yearly_data :: "registration list \<Rightarrow> (string \<times> string \<times> int \<times> nat) list" where
  "sql_yearly_data tbl =
     map (\<lambda>(m, v, y). (m, v, y,
            sum_list (map registrations
              (filter (\<lambda>r. manufacturer r = m \<and> vehicle_type r = v \<and> year r = y) tbl))))
         (sort (remdups (map (\<lambda>r. (manufacturer r, vehicle_type r, year r)) tbl)))"

text \<open>
  \<open>CASE WHEN previous > 0 THEN ROUND((current - previous) * 100.0 / previous, 2)
  ELSE NULL END\<close>, where a NULL \<open>previous\<close> is not greater than 0.
\<close>

definition sql_growth_rate :: "nat \<Rightarrow> nat option \<Rightarrow> error + rat option" where
  "sql_growth_rate cur previous =
     (case previous of
        None \<Rightarrow> Inr None
      | Some prev \<Rightarrow>
          if 0 < prev then
            (case checked_div (of_int ((int cur - int prev) * 100)) (of_nat prev) of
               Inl e \<Rightarrow> Inl e
             | Inr q \<Rightarrow> Inr (Some (sql_round q 2)))
          else Inr None)"

text \<open>
  One row of \<open>yoy_growth\<close> for a row \<open>y1\<close> of \<open>yearly_data\<close> and its partner \<open>y2\<close>
  of the LEFT JOIN (\<open>None\<close> when no row matches), with the columns of the INSERT
  already computed: \<open>COALESCE(previous, 0)\<close> in the absolute growth.
\<close>

definition yoy_growth_row ::
  "string \<times> string \<times> int \<times> nat \<Rightarrow> nat option \<Rightarrow> error + growth_row" where
  "yoy_growth_row y1 previous =
     (case y1 of (m, v, y, cur) \<Rightarrow>
        (case sql_growth_rate cur previous of
           Inl e \<Rightarrow> Inl e
         | Inr r \<Rightarrow>
             Inr \<lparr>entity_type = ''manufacturer'',
                   entity_name = m @ '' ('' @ v @ '')'',
                   metric_type = ''yoy'',
                   period_text = str_int y,
                   current_total = cur,
                   previous_total = previous,
                   rate = r,
                   absolute = int cur - int (case previous of None \<Rightarrow> 0 | Some p \<Rightarrow> p)\<rparr>))"

text \<open>
  \<open>yearly_data y1 LEFT JOIN yearly_data y2 ON\<close> same manufacturer, same vehicle
  type and \<open>y1.year = y2.year + 1\<close>: a row for every match, and one row with NULLs
  when there is none.
\<close>

definition yoy_join ::
  "(string \<times> string \<times> int \<times> nat) list \<Rightarrow> string \<times> string \<times> int \<times> nat
     \<Rightarrow> error + growth_row list" where
  "yoy_join yd y1 =
     (case y1 of (m, v, y, cur) \<Rightarrow>
        (case filter (\<lambda>(m2, v2, y2, prev). m = m2 \<and> v = v2 \<and> y = y2 + 1) yd of
           [] \<Rightarrow> collect (\<lambda>p. map_sum id (\<lambda>r. [r]) (yoy_growth_row y1 p)) [None]
         | ms \<Rightarrow> collect (\<lambda>p. map_sum id (\<lambda>r. [r]) (yoy_growth_row y1 p))
                         (map (\<lambda>(m2, v2, y2, prev). Some prev) ms)))"

text \<open>
  The rows the first INSERT adds: those of \<open>yoy_growth\<close> with
  \<open>previous_value IS NOT NULL\<close>.
\<close>

definition yoy_manufacturer_query :: "registration list \<Rightarrow> error + growth_row list" where
  "yoy_manufacturer_query tbl =
     (let yd = sql_yearly_data tbl
      in case collect (yoy_join yd) yd of
           Inl e \<Rightarrow> Inl e
         | Inr joined \<Rightarrow> Inr (filter (\<lambda>r. previous_total r \<noteq> None) joined))"

text \<open>
  The database: the registration table and the table of growth metrics.
  \<open>calculate_and_store_growth_metrics\<close> empties the latter and fills it again; of
  its three INSERT statements the model has the first, the year-over-year growth by
  manufacturer and vehicle type.
\<close>

record database =
  vehicle_registrations :: "registration list"
  growth_metrics :: "growth_row list"

definition calculate_and_store_growth_metrics :: "database \<Rightarrow> error + database" where
  "calculate_and_store_growth_metrics db =
     (case yoy_manufacturer_query (vehicle_registrations db) of
        Inl e \<Rightarrow> Inl e
      | Inr new_rows \<Rightarrow> Inr (db\<lparr>growth_metrics := new_rows\<rparr>))"

section \<open>Quantities the properties are stated with\<close>



definition group_sum :: "column list \<Rightarrow> dataframe \<Rightarrow> string list \<Rightarrow> int \<Rightarrow> nat" where
  "group_sum group_by df g y =
     sum_list (map registrations
       (filter (\<lambda>r. group_key group_by r = g \<and> year r = y) (rows df)))"

text \<open>The growth in percent, before rounding.\<close>

definition exact_growth :: "nat \<Rightarrow> nat \<Rightarrow> rat" where
  "exact_growth cur prev = of_int (int cur - int prev) / of_nat prev * 100"

text \<open>
  The metric expected for a group, the later year of a pair of years, and the
  registrations of the group in the later and in the earlier year; its rank is not
  yet assigned.
\<close>

definition expected_metric :: "string list \<Rightarrow> int \<Rightarrow> nat \<Rightarrow> nat \<Rightarrow> GrowthMetric" where
  "expected_metric g y cur prev =
     \<lparr>entity = join '' - '' g, period = str_int y,
      current_value = cur, previous_value = prev,
      growth_rate = py_round (exact_growth cur prev) 2,
      growth_absolute = int cur - int prev, rank = 0\<rparr>"


text \<open>
  For the store: the keys of its yearly sums, the sum of a key, and the row it holds
  for a manufacturer, a vehicle type, a year and the sums of that year and of the
  year before.
\<close>

definition sql_keys :: "registration list \<Rightarrow> (string \<times> string \<times> int) list" where
  "sql_keys tbl = sort (remdups (map (\<lambda>r. (manufacturer r, vehicle_type r, year r)) tbl))"

definition sql_sum :: "registration list \<Rightarrow> string \<Rightarrow> string \<Rightarrow> int \<Rightarrow> nat" where
  "sql_sum tbl m v y =
     sum_list (map registrations
       (filter (\<lambda>r. manufacturer r = m \<and> vehicle_type r = v \<and> year r = y) tbl))"

definition stored_row :: "string \<Rightarrow> string \<Rightarrow> int \<Rightarrow> nat \<Rightarrow> nat \<Rightarrow> growth_row" where
  "stored_row m v y cur prev =
     \<lparr>entity_type = ''manufacturer'',
      entity_name = m @ '' ('' @ v @ '')'',
      metric_type = ''yoy'',
      period_text = str_int y,
      current_total = cur,
      previous_total = Some prev,
      rate = (if 0 < prev then Some (sql_round (exact_growth cur prev) 2) else None),
      absolute = int cur - int prev\<rparr>"

text \<open>The rows expected of the store for one key of its yearly sums.\<close>

definition stored_rows :: "registration list \<Rightarrow> string \<times> string \<times> int \<Rightarrow> growth_row list" where
  "stored_rows tbl k =
     (case k of (m, v, y) \<Rightarrow>
        if (m, v, y - 1) \<in> set (sql_keys tbl)
        then [stored_row m v y (sql_sum tbl m v y) (sql_sum tbl m v (y - 1))]
        else [])"

section \<open>Ranking of growth metrics\<close>















lemma set_unique [simp]: "set (unique xs) = set xs"
  by (simp add: unique_def)

lemma distinct_unique [simp]: "distinct (unique xs)"
  by (simp add: unique_def)

lemma yearly_data_keys:
  "map (\<lambda>(g, y, s). (g, y)) (yearly_data group_by df) =
   sort (remdups (map (\<lambda>r. (group_key group_by r, year r)) (rows df)))"
  by (simp add: yearly_data_def comp_def case_prod_beta)

lemma yearly_data_elem:
  assumes "x \<in> set (yearly_data group_by df)"
  shows "\<exists>g y. x = (g, y, group_sum group_by df g y) \<and>
           (\<exists>r \<in> set (rows df). group_key group_by r = g \<and> year r = y)"
  using assms by (auto simp: yearly_data_def group_sum_def)

lemma yearly_data_mem:
  assumes "r \<in> set (rows df)"
  shows "(group_key group_by r, year r, group_sum group_by df (group_key group_by r) (year r))
           \<in> set (yearly_data group_by df)"
  using assms by (force simp: yearly_data_def group_sum_def)











lemma expected_metric_rank [simp]: "(expected_metric g y c p)\<lparr>rank := 0\<rparr> = expected_metric g y c p"
  by (simp add: expected_metric_def)






section \<open>Market structure labels\<close>

text \<open>
  Claim C4, as the code has it.  Every entry of the concentration dictionary carries
  the label that the thresholds give to its HHI: ``Highly Concentrated (Oligopoly)''
  above 2500, ``Moderately Concentrated'' above 1500 and up to 2500,
  ``Unconcentrated (Competitive)'' above 1000 and up to 1500, ``Highly Competitive''
  otherwise.  Four manufacturers of one category with 40, 30, 20 and 10
  registrations (shares 40, 30, 20 and 10 percent) have HHI 3000, the first label,
  and CR4 100.
\<close>

theorem market_structure_by_thresholds:
  "(\<forall>e \<in> set (calculate_market_concentration df).
      market_structure (snd e) =
        (if 2500 < hhi_index (snd e) then ''Highly Concentrated (Oligopoly)''
         else if 1500 < hhi_index (snd e) \<and> hhi_index (snd e) \<le> 2500
         then ''Moderately Concentrated''
         else if 1000 < hhi_index (snd e) \<and> hhi_index (snd e) \<le> 1500
         then ''Unconcentrated (Competitive)''
         else ''Highly Competitive''))
   \<and> calculate_market_concentration
        \<lparr>rows = [\<lparr>year = 2020, quarter = ''Q1'', vehicle_type = ''4W'', manufacturer = ''A'',
                   registrations = 40, fuel_type = ''''\<rparr>,
                 \<lparr>year = 2020, quarter = ''Q1'', vehicle_type = ''4W'', manufacturer = ''B'',
                   registrations = 30, fuel_type = ''''\<rparr>,
                 \<lparr>year = 2020, quarter = ''Q1'', vehicle_type = ''4W'', manufacturer = ''C'',
                   registrations = 20, fuel_type = ''''\<rparr>,
                 \<lparr>year = 2020, quarter = ''Q1'', vehicle_type = ''4W'', manufacturer = ''D'',
                   registrations = 10, fuel_type = ''''\<rparr>],
          fuel_type_column = False\<rparr>
      = [(''4W'', \<lparr>total_manufacturers = 4, cr4_ratio = 100, cr8_ratio = 100,
                    hhi_index = 3000, effective_competitors = 10 / 3,
                    market_structure = ''Highly Concentrated (Oligopoly)''\<rparr>)]"
proof -
  have "market_structure (snd e) =
        (if 2500 < hhi_index (snd e) then ''Highly Concentrated (Oligopoly)''
         else if 1500 < hhi_index (snd e) \<and> hhi_index (snd e) \<le> 2500
         then ''Moderately Concentrated''
         else if 1000 < hhi_index (snd e) \<and> hhi_index (snd e) \<le> 1500
         then ''Unconcentrated (Competitive)''
         else ''Highly Competitive'')"
    if "e \<in> set (calculate_market_concentration df)" for e
  proof -
    from that obtain vt where "e = (vt, concentration_of (select (\<lambda>r. vehicle_type r = vt) df))"
      by (auto simp: calculate_market_concentration_def)
    then show ?thesis
      by (simp add: concentration_of_def Let_def classify_market_structure_def)
  qed
  moreover have "calculate_market_concentration
        \<lparr>rows = [\<lparr>year = 2020, quarter = ''Q1'', vehicle_type = ''4W'', manufacturer = ''A'',
                   registrations = 40, fuel_type = ''''\<rparr>,
                 \<lparr>year = 2020, quarter = ''Q1'', vehicle_type = ''4W'', manufacturer = ''B'',
                   registrations = 30, fuel_type = ''''\<rparr>,
                 \<lparr>year = 2020, quarter = ''Q1'', vehicle_type = ''4W'', manufacturer = ''C'',
                   registrations = 20, fuel_type = ''''\<rparr>,
                 \<lparr>year = 2020, quarter = ''Q1'', vehicle_type = ''4W'', manufacturer = ''D'',
                   registrations = 10, fuel_type = ''''\<rparr>],
          fuel_type_column = False\<rparr>
      = [(''4W'', \<lparr>total_manufacturers = 4, cr4_ratio = 100, cr8_ratio = 100,
                    hhi_index = 3000, effective_competitors = 10 / 3,
                    market_structure = ''Highly Concentrated (Oligopoly)''\<rparr>)]"
    by code_simp
  ultimately show ?thesis by blast
qed

text \<open>
  The theorem at two manufacturers with equal registrations: the HHI is 5000 and the
  label is the one for an HHI above 2500.
\<close>

theorem market_structure_by_thresholds_witness:
  "(''2W'', concentration_of
       \<lparr>rows = [\<lparr>year = 2020, quarter = ''Q1'', vehicle_type = ''2W'', manufacturer = ''A'',
                  registrations = 5, fuel_type = ''''\<rparr>,
                \<lparr>year = 2020, quarter = ''Q2'', vehicle_type = ''2W'', manufacturer = ''B'',
                  registrations = 5, fuel_type = ''''\<rparr>],
         fuel_type_column = False\<rparr>)
     \<in> set (calculate_market_concentration
       \<lparr>rows = [\<lparr>year = 2020, quarter = ''Q1'', vehicle_type = ''2W'', manufacturer = ''A'',
                  registrations = 5, fuel_type = ''''\<rparr>,
                \<lparr>year = 2020, quarter = ''Q2'', vehicle_type = ''2W'', manufacturer = ''B'',
                  registrations = 5, fuel_type = ''''\<rparr>],
         fuel_type_column = False\<rparr>)
   \<and> hhi_index (concentration_of
       \<lparr>rows = [\<lparr>year = 2020, quarter = ''Q1'', vehicle_type = ''2W'', manufacturer = ''A'',
                  registrations = 5, fuel_type = ''''\<rparr>,
                \<lparr>year = 2020, quarter = ''Q2'', vehicle_type = ''2W'', manufacturer = ''B'',
                  registrations = 5, fuel_type = ''''\<rparr>],
         fuel_type_column = False\<rparr>) = 5000
   \<and> market_structure (concentration_of
       \<lparr>rows = [\<lparr>year = 2020, quarter = ''Q1'', vehicle_type = ''2W'', manufacturer = ''A'',
                  registrations = 5, fuel_type = ''''\<rparr>,
                \<lparr>year = 2020, quarter = ''Q2'', vehicle_type = ''2W'', manufacturer = ''B'',
                  registrations = 5, fuel_type = ''''\<rparr>],
         fuel_type_column = False\<rparr>) = ''Highly Concentrated (Oligopoly)''"
proof -
  let ?df = "\<lparr>rows = [\<lparr>year = 2020, quarter = ''Q1'', vehicle_type = ''2W'', manufacturer = ''A'',
                  registrations = 5, fuel_type = ''''\<rparr>,
                \<lparr>year = 2020, quarter = ''Q2'', vehicle_type = ''2W'', manufacturer = ''B'',
                  registrations = 5, fuel_type = ''''\<rparr>],
         fuel_type_column = False\<rparr>"
  have m: "(''2W'', concentration_of ?df) \<in> set (calculate_market_concentration ?df)"
    by code_simp
  have h: "hhi_index (concentration_of ?df) = 5000"
    by code_simp
  from market_structure_by_thresholds [of ?df] m
  have "market_structure (snd (''2W'', concentration_of ?df)) =
        (if 2500 < hhi_index (snd (''2W'', concentration_of ?df))
         then ''Highly Concentrated (Oligopoly)''
         else if 1500 < hhi_index (snd (''2W'', concentration_of ?df))
                 \<and> hhi_index (snd (''2W'', concentration_of ?df)) \<le> 2500
         then ''Moderately Concentrated''
         else if 1000 < hhi_index (snd (''2W'', concentration_of ?df))
                 \<and> hhi_index (snd (''2W'', concentration_of ?df)) \<le> 1500
         then ''Unconcentrated (Competitive)''
         else ''Highly Competitive'')"
    by blast
  then have "market_structure (concentration_of ?df) = ''Highly Concentrated (Oligopoly)''"
    by (simp only: snd_conv h) simp
  with m h show ?thesis by blast
qed

text \<open>
  The label of the scenario is not the bare ``Highly Concentrated'': the code appends
  ``(Oligopoly)''.
\<close>

theorem market_structure_label_differs:
  "map fst (calculate_market_concentration
        \<lparr>rows = [\<lparr>year = 2020, quarter = ''Q1'', vehicle_type = ''4W'', manufacturer = ''A'',
                   registrations = 40, fuel_type = ''''\<rparr>,
                 \<lparr>year = 2020, quarter = ''Q1'', vehicle_type = ''4W'', manufacturer = ''B'',
                   registrations = 30, fuel_type = ''''\<rparr>,
                 \<lparr>year = 2020, quarter = ''Q1'', vehicle_type = ''4W'', manufacturer = ''C'',
                   registrations = 20, fuel_type = ''''\<rparr>,
                 \<lparr>year = 2020, quarter = ''Q1'', vehicle_type = ''4W'', manufacturer = ''D'',
                   registrations = 10, fuel_type = ''''\<rparr>],
          fuel_type_column = False\<rparr>) = [''4W'']
   \<and> map hhi_index (map snd (calculate_market_concentration
        \<lparr>rows = [\<lparr>year = 2020, quarter = ''Q1'', vehicle_type = ''4W'', manufacturer = ''A'',
                   registrations = 40, fuel_type = ''''\<rparr>,
                 \<lparr>year = 2020, quarter = ''Q1'', vehicle_type = ''4W'', manufacturer = ''B'',
                   registrations = 30, fuel_type = ''''\<rparr>,
                 \<lparr>year = 2020, quarter = ''Q1'', vehicle_type = ''4W'', manufacturer = ''C'',
                   registrations = 20, fuel_type = ''''\<rparr>,
                 \<lparr>year = 2020, quarter = ''Q1'', vehicle_type = ''4W'', manufacturer = ''D'',
                   registrations = 10, fuel_type = ''''\<rparr>],
          fuel_type_column = False\<rparr>)) = [3000]
   \<and> map market_structure (map snd (calculate_market_concentration
        \<lparr>rows = [\<lparr>year = 2020, quarter = ''Q1'', vehicle_type = ''4W'', manufacturer = ''A'',
                   registrations = 40, fuel_type = ''''\<rparr>,
                 \<lparr>year = 2020, quarter = ''Q1'', vehicle_type = ''4W'', manufacturer = ''B'',
                   registrations = 30, fuel_type = ''''\<rparr>,
                 \<lparr>year = 2020, quarter = ''Q1'', vehicle_type = ''4W'', manufacturer = ''C'',
                   registrations = 20, fuel_type = ''''\<rparr>,
                 \<lparr>year = 2020, quarter = ''Q1'', vehicle_type = ''4W'', manufacturer = ''D'',
                   registrations = 10, fuel_type = ''''\<rparr>],
          fuel_type_column = False\<rparr>)) \<noteq> [''Highly Concentrated'']"
  by code_simp


section \<open>The empty record set\<close>

text \<open>
  Claim C7.  On a frame without rows, with or without the fuel type column, each
  operation of the calculator and of the narrator returns and its result is empty
  or the placeholder: the year-over-year growth metrics are the empty list for
  every grouping, the concentration dictionary, the scorecard and the forecast are
  empty, there is no investment theme, the recompute of the store leaves no growth
  row, and the executive summary has total registrations ``0'', growth ``N/A'',
  manufacturer count 0 and ``No data available'' as size category, as investment
  outlook and as the one risk.
\<close>

theorem empty_record_set_results:
  "calculate_growth_metrics_YOY group_by \<lparr>rows = [], fuel_type_column = b\<rparr> = Inr []
   \<and> calculate_market_concentration \<lparr>rows = [], fuel_type_column = b\<rparr> = []
   \<and> generate_investment_scorecard \<lparr>rows = [], fuel_type_column = b\<rparr> = Inr []
   \<and> forecast_registrations polyfit \<lparr>rows = [], fuel_type_column = b\<rparr> periods = Inr []
   \<and> identify_investment_themes \<lparr>rows = [], fuel_type_column = b\<rparr> = Inr []
   \<and> calculate_and_store_growth_metrics \<lparr>vehicle_registrations = [], growth_metrics = old\<rparr>
       = Inr \<lparr>vehicle_registrations = [], growth_metrics = []\<rparr>
   \<and> generate_executive_summary \<lparr>rows = [], fuel_type_column = b\<rparr>
       = Inr \<lparr>total_registrations = ''0'', yoy_growth = ''N/A'',
              total_manufacturers_count = 0,
              market_size_category = ''No data available'',
              investment_outlook = ''No data available'',
              risk_assessment = [''No data available'']\<rparr>"
proof -
  let ?df = "\<lparr>rows = [], fuel_type_column = b\<rparr>"
  have g: "calculate_growth_metrics_YOY gb ?df = Inr []" for gb
    by (simp add: calculate_growth_metrics_YOY_def yoy_unranked_def yearly_data_def
        unique_def rank_metrics_def)
  have c: "calculate_market_concentration ?df = []"
    by (simp add: calculate_market_concentration_def unique_def)
  have s: "generate_investment_scorecard ?df = Inr []"
    by (simp add: generate_investment_scorecard_def unique_def)
  have f: "forecast_registrations polyfit ?df periods = Inr []"
    by (simp add: forecast_registrations_def unique_def)
  have t: "identify_investment_themes ?df = Inr []"
    by (simp add: identify_investment_themes_def g c ev_theme_def growth_theme_def)
  have d: "calculate_and_store_growth_metrics \<lparr>vehicle_registrations = [], growth_metrics = old\<rparr>
       = Inr \<lparr>vehicle_registrations = [], growth_metrics = []\<rparr>"
    by (simp add: calculate_and_store_growth_metrics_def yoy_manufacturer_query_def
        sql_yearly_data_def)
  have e: "generate_executive_summary ?df
       = Inr \<lparr>total_registrations = ''0'', yoy_growth = ''N/A'',
              total_manufacturers_count = 0,
              market_size_category = ''No data available'',
              investment_outlook = ''No data available'',
              risk_assessment = [''No data available'']\<rparr>"
    by (simp add: generate_executive_summary_def empty_df_def)
  from g c s f t d e show ?thesis by blast
qed


end
